theory Spec2Isabelle
  imports Complex_Main
begin

section \<open>DynamicGraphTemporalSignalBatch: the data model\<close>

text \<open>
  The class \<^verbatim>\<open>DynamicGraphTemporalSignalBatch\<close> of
  \<^verbatim>\<open>torch_geometric_temporal/signal/dynamic_graph_temporal_signal_batch.py\<close>
  holds five parallel lists of numpy arrays (or \<^verbatim>\<open>None\<close>) and any number of named
  additional lists, checks at construction that their lengths agree, and builds one
  \<^verbatim>\<open>Batch\<close> object per time index on demand.

  A numpy array is a record of what the class can see of it. The only thing the code ever
  reads from an array is \<^verbatim>\<open>dtype.kind\<close>, a one-letter string (\<^verbatim>\<open>"i"\<close> signed integer,
  \<^verbatim>\<open>"f"\<close> floating point, \<^verbatim>\<open>"b"\<close> boolean, \<^verbatim>\<open>"u"\<close> unsigned, ...). The shape and the
  elements (of a type \<open>'a\<close> that the code never inspects) are carried along unchanged.
\<close>

record 'a ndarray =
  dtype_kind :: string
  shape :: "nat list"
  elems :: "'a list"

text \<open>
  \<^verbatim>\<open>torch.LongTensor\<close> and \<^verbatim>\<open>torch.FloatTensor\<close> belong to the torch library. The
  class only chooses which of the two is called on which array, so a tensor is the
  constructor together with the array it was called on. What torch does to the numbers
  (narrowing to 32-bit floats, truncating to 64-bit integers) is outside this file.
\<close>

datatype 'a tensor = LongTensor "'a ndarray" | FloatTensor "'a ndarray"

text \<open>
  Exceptions are values. \<^verbatim>\<open>AssertionError\<close> carries the message of the failed
  \<^verbatim>\<open>assert\<close>; the specification calls it \<^verbatim>\<open>InconsistentLengthError\<close>, and calls
  Python's \<^verbatim>\<open>IndexError\<close> \<^verbatim>\<open>IndexOutOfRangeError\<close>.
\<close>

datatype error =
  AssertionError string | IndexError | AttributeError | TypeError | StopIteration

text \<open>
  The object is its instance dictionary: one namespace from attribute names to values.
  \<^verbatim>\<open>self.features = features\<close>, \<^verbatim>\<open>setattr(self, key, value)\<close>,
  \<^verbatim>\<open>self.snapshot_count = ...\<close> and \<^verbatim>\<open>self.t = 0\<close> all write into it, and a later
  write under the same name replaces the earlier value. The values that reach it are lists
  and integers. A list entry is \<^verbatim>\<open>None\<close>, an array, or a string (the list
  \<^verbatim>\<open>additional_feature_keys\<close> holds the keyword names).

  The arguments of the constructor are values here: the five core lists are lists of
  \<^verbatim>\<open>None\<close> or arrays (\<^verbatim>\<open>List[Union[np.ndarray, None]]\<close>) and each keyword argument
  is a list of arrays (\<^verbatim>\<open>List[np.ndarray]\<close>). The only list the class ever changes in
  place is the one bound to \<^verbatim>\<open>additional_feature_keys\<close>, by \<^verbatim>\<open>append\<close>; values are
  exact as long as that list is not passed under a second name as well.
\<close>

datatype 'a elem = ENone | EArray "'a ndarray" | EStr string

datatype 'a pyval = PList "'a elem list" | PInt int

type_synonym 'a signal = "string \<rightharpoonup> 'a pyval"

text \<open>
  The \<^verbatim>\<open>Batch\<close> that \<^verbatim>\<open>__get_item__\<close> builds: the keyword arguments \<^verbatim>\<open>x\<close>,
  \<^verbatim>\<open>edge_index\<close>, \<^verbatim>\<open>edge_attr\<close>, \<^verbatim>\<open>y\<close>, \<^verbatim>\<open>batch\<close> and the dictionary of
  additional features, in the order of its keys. What \<^verbatim>\<open>Batch\<close> does with them belongs
  to torch_geometric.
\<close>

record 'a snapshot =
  snap_x :: "'a tensor option"
  snap_edge_index :: "'a tensor option"
  snap_edge_attr :: "'a tensor option"
  snap_y :: "'a tensor option"
  snap_batch :: "'a tensor option"
  snap_extra :: "(string \<times> 'a tensor option) list"

section \<open>Python primitives\<close>

text \<open>Sequencing of calls that may raise.\<close>

definition ebind :: "error + 'b \<Rightarrow> ('b \<Rightarrow> error + 'c) \<Rightarrow> error + 'c" where
  "ebind m f = (case m of Inl e \<Rightarrow> Inl e | Inr v \<Rightarrow> f v)"

text \<open>\<^verbatim>\<open>xs[i]\<close> on a list: a negative index counts from the end, anything else out of
  range raises \<^verbatim>\<open>IndexError\<close>.\<close>

definition list_index :: "'b list \<Rightarrow> int \<Rightarrow> error + 'b" where
  "list_index xs i =
     (if i < - int (length xs) \<or> int (length xs) \<le> i then Inl IndexError
      else if i < 0 then Inr (xs ! nat (i + int (length xs)))
      else Inr (xs ! nat i))"

text \<open>\<^verbatim>\<open>v[i]\<close> and \<^verbatim>\<open>len(v)\<close> on a value of the namespace: an integer is neither
  subscriptable nor sized (\<^verbatim>\<open>TypeError\<close>).\<close>

definition subscript :: "'a pyval \<Rightarrow> int \<Rightarrow> error + 'a elem" where
  "subscript v i = (case v of PList xs \<Rightarrow> list_index xs i | PInt n \<Rightarrow> Inl TypeError)"

definition py_len :: "'a pyval \<Rightarrow> error + nat" where
  "py_len v = (case v of PList xs \<Rightarrow> Inr (length xs) | PInt n \<Rightarrow> Inl TypeError)"

text \<open>\<^verbatim>\<open>v.append(e)\<close>: an integer has no such attribute.\<close>

definition py_append :: "'a pyval \<Rightarrow> 'a elem \<Rightarrow> error + 'a pyval" where
  "py_append v e = (case v of PList xs \<Rightarrow> Inr (PList (xs @ [e])) | PInt n \<Rightarrow> Inl AttributeError)"

text \<open>Reading the attribute \<open>name\<close> of the object, as in \<^verbatim>\<open>self.features\<close> or
  \<^verbatim>\<open>getattr(self, name)\<close>: every name the class reads this way is one it has assigned
  before, or raises \<^verbatim>\<open>AttributeError\<close> (\<^verbatim>\<open>self.t\<close> before \<^verbatim>\<open>__iter__\<close>).\<close>

definition getattr :: "'a signal \<Rightarrow> string \<Rightarrow> error + 'a pyval" where
  "getattr s name = (case s name of None \<Rightarrow> Inl AttributeError | Some v \<Rightarrow> Inr v)"

text \<open>\<^verbatim>\<open>getattr(self, key)\<close> where \<open>key\<close> is an entry of the list
  \<^verbatim>\<open>additional_feature_keys\<close>: the attribute name must be a string
  (\<^verbatim>\<open>TypeError\<close> otherwise).\<close>

definition getattr_key :: "'a signal \<Rightarrow> 'a elem \<Rightarrow> error + 'a pyval" where
  "getattr_key s key = (case key of EStr name \<Rightarrow> getattr s name | _ \<Rightarrow> Inl TypeError)"

text \<open>\<^verbatim>\<open>len(self.name)\<close>.\<close>

definition attr_len :: "'a signal \<Rightarrow> string \<Rightarrow> error + nat" where
  "attr_len s name = ebind (getattr s name) py_len"

text \<open>\<^verbatim>\<open>setattr(self, key, value)\<close> on an instance of a plain class. Three names are
  not plain attributes of such an object: \<^verbatim>\<open>__class__\<close> must be set to a class and
  \<^verbatim>\<open>__dict__\<close> to a dictionary (\<^verbatim>\<open>TypeError\<close> for a list), and \<^verbatim>\<open>__weakref__\<close>
  is not writable (\<^verbatim>\<open>AttributeError\<close>). Every other name is stored in the instance
  dictionary, also the name of a method of the class, which it then shadows.\<close>

definition setattr :: "'a signal \<Rightarrow> string \<Rightarrow> 'a pyval \<Rightarrow> error + 'a signal" where
  "setattr s key v =
     (if key = ''__class__'' \<or> key = ''__dict__'' then Inl TypeError
      else if key = ''__weakref__'' then Inl AttributeError
      else Inr (s(key \<mapsto> v)))"

text \<open>Looking up a method for a call \<^verbatim>\<open>self.method(...)\<close>: the instance dictionary is
  searched first, and a list or an integer found there is not callable
  (\<^verbatim>\<open>TypeError\<close>).\<close>

definition bound_method :: "'a signal \<Rightarrow> string \<Rightarrow> error + unit" where
  "bound_method s name = (case s name of None \<Rightarrow> Inr () | Some v \<Rightarrow> Inl TypeError)"

text \<open>\<^verbatim>\<open>d[key] = v\<close> on a dictionary kept as the list of its items in insertion
  order.\<close>

fun dict_set :: "string \<Rightarrow> 'v \<Rightarrow> (string \<times> 'v) list \<Rightarrow> (string \<times> 'v) list" where
  "dict_set key v [] = [(key, v)]"
| "dict_set key v ((k, w) # d) = (if k = key then (k, v) # d else (k, w) # dict_set key v d)"

definition elem_of :: "'a ndarray option \<Rightarrow> 'a elem" where
  "elem_of e = (case e of None \<Rightarrow> ENone | Some a \<Rightarrow> EArray a)"

section \<open>Construction\<close>

definition msg :: string where
  "msg = ''Temporal dimension inconsistency.''"

text \<open>The loop of \<^verbatim>\<open>_check_temporal_consistency\<close> over the entries of
  \<^verbatim>\<open>additional_feature_keys\<close>.\<close>

fun check_keys :: "'a signal \<Rightarrow> 'a elem list \<Rightarrow> error + unit" where
  "check_keys s [] = Inr ()"
| "check_keys s (key # keys) =
     ebind (attr_len s ''targets'') (\<lambda>n.
     ebind (getattr_key s key) (\<lambda>v.
     ebind (py_len v) (\<lambda>m.
       if n = m then check_keys s keys else Inl (AssertionError msg))))"

definition check_temporal_consistency :: "'a signal \<Rightarrow> error + unit" where
  "check_temporal_consistency s =
     ebind (attr_len s ''features'') (\<lambda>n1.
     ebind (attr_len s ''targets'') (\<lambda>m1.
     if n1 \<noteq> m1 then Inl (AssertionError msg) else
     ebind (attr_len s ''edge_indices'') (\<lambda>n2.
     ebind (attr_len s ''edge_weights'') (\<lambda>m2.
     if n2 \<noteq> m2 then Inl (AssertionError msg) else
     ebind (attr_len s ''features'') (\<lambda>n3.
     ebind (attr_len s ''edge_weights'') (\<lambda>m3.
     if n3 \<noteq> m3 then Inl (AssertionError msg) else
     ebind (attr_len s ''features'') (\<lambda>n4.
     ebind (attr_len s ''batches'') (\<lambda>m4.
     if n4 \<noteq> m4 then Inl (AssertionError msg) else
     ebind (getattr s ''additional_feature_keys'') (\<lambda>ks.
       case ks of PList keys \<Rightarrow> check_keys s keys | PInt n \<Rightarrow> Inl TypeError)))))))))"

definition set_snapshot_count :: "'a signal \<Rightarrow> error + 'a signal" where
  "set_snapshot_count s =
     ebind (attr_len s ''features'') (\<lambda>n. Inr (s(''snapshot_count'' \<mapsto> PInt (int n))))"

text \<open>The loop \<^verbatim>\<open>for key, value in kwargs.items()\<close>: \<^verbatim>\<open>setattr\<close>, then
  \<^verbatim>\<open>self.additional_feature_keys.append(key)\<close> on whatever that attribute is by
  then.\<close>

fun set_kwargs :: "(string \<times> 'a ndarray list) list \<Rightarrow> 'a signal \<Rightarrow> error + 'a signal" where
  "set_kwargs [] s = Inr s"
| "set_kwargs ((key, value) # rest) s =
     ebind (setattr s key (PList (map EArray value))) (\<lambda>s1.
     ebind (getattr s1 ''additional_feature_keys'') (\<lambda>ks.
     ebind (py_append ks (EStr key)) (\<lambda>ks'.
       set_kwargs rest (s1(''additional_feature_keys'' \<mapsto> ks')))))"

text \<open>The named parameters of \<^verbatim>\<open>__init__\<close>. A keyword argument under one of these
  names is not part of \<^verbatim>\<open>kwargs\<close>: the call itself raises \<^verbatim>\<open>TypeError\<close>
  (multiple values for the argument).\<close>

definition init_params :: "string list" where
  "init_params =
     [''self'', ''edge_indices'', ''edge_weights'', ''features'', ''targets'', ''batches'']"

text \<open>The call of the class with five positional arguments and the keyword arguments
  \<open>kwargs\<close>, in the order they are written: \<^verbatim>\<open>__init__\<close>.\<close>

definition init_signal ::
  "'a ndarray option list \<Rightarrow> 'a ndarray option list \<Rightarrow> 'a ndarray option list \<Rightarrow>
   'a ndarray option list \<Rightarrow> 'a ndarray option list \<Rightarrow> (string \<times> 'a ndarray list) list \<Rightarrow>
   error + 'a signal" where
  "init_signal ei ew f tg b kwargs =
     (if \<exists>key \<in> set (map fst kwargs). key \<in> set init_params then Inl TypeError
      else
        ebind (set_kwargs kwargs
                 (Map.empty(''edge_indices'' \<mapsto> PList (map elem_of ei),
                            ''edge_weights'' \<mapsto> PList (map elem_of ew),
                            ''features'' \<mapsto> PList (map elem_of f),
                            ''targets'' \<mapsto> PList (map elem_of tg),
                            ''batches'' \<mapsto> PList (map elem_of b),
                            ''additional_feature_keys'' \<mapsto> PList []))) (\<lambda>s1.
        ebind (bound_method s1 ''_check_temporal_consistency'') (\<lambda>_.
        ebind (check_temporal_consistency s1) (\<lambda>_.
        ebind (bound_method s1 ''_set_snapshot_count'') (\<lambda>_.
          set_snapshot_count s1)))))"

section \<open>Per-index access\<close>

text \<open>The four accessors without a test of the kind. An entry that is not
  \<^verbatim>\<open>None\<close> goes to the torch constructor; torch rejects a string
  (\<^verbatim>\<open>TypeError\<close>), which the core lists never hold.\<close>

definition get_edge_index :: "'a signal \<Rightarrow> int \<Rightarrow> error + 'a tensor option" where
  "get_edge_index s time_index =
     ebind (getattr s ''edge_indices'') (\<lambda>v.
     ebind (subscript v time_index) (\<lambda>e.
       case e of ENone \<Rightarrow> Inr None | EArray a \<Rightarrow> Inr (Some (LongTensor a))
       | EStr x \<Rightarrow> Inl TypeError))"

definition get_batch_index :: "'a signal \<Rightarrow> int \<Rightarrow> error + 'a tensor option" where
  "get_batch_index s time_index =
     ebind (getattr s ''batches'') (\<lambda>v.
     ebind (subscript v time_index) (\<lambda>e.
       case e of ENone \<Rightarrow> Inr None | EArray a \<Rightarrow> Inr (Some (LongTensor a))
       | EStr x \<Rightarrow> Inl TypeError))"

definition get_edge_weight :: "'a signal \<Rightarrow> int \<Rightarrow> error + 'a tensor option" where
  "get_edge_weight s time_index =
     ebind (getattr s ''edge_weights'') (\<lambda>v.
     ebind (subscript v time_index) (\<lambda>e.
       case e of ENone \<Rightarrow> Inr None | EArray a \<Rightarrow> Inr (Some (FloatTensor a))
       | EStr x \<Rightarrow> Inl TypeError))"

definition get_feature :: "'a signal \<Rightarrow> int \<Rightarrow> error + 'a tensor option" where
  "get_feature s time_index =
     ebind (getattr s ''features'') (\<lambda>v.
     ebind (subscript v time_index) (\<lambda>e.
       case e of ENone \<Rightarrow> Inr None | EArray a \<Rightarrow> Inr (Some (FloatTensor a))
       | EStr x \<Rightarrow> Inl TypeError))"

text \<open>\<^verbatim>\<open>_get_target\<close> has an \<^verbatim>\<open>if\<close> and an \<^verbatim>\<open>elif\<close> and no \<^verbatim>\<open>else\<close>: for any
  other kind the function ends without a \<^verbatim>\<open>return\<close>, which in Python returns
  \<^verbatim>\<open>None\<close>. A string has no \<^verbatim>\<open>dtype\<close> (\<^verbatim>\<open>AttributeError\<close>).\<close>

definition get_target :: "'a signal \<Rightarrow> int \<Rightarrow> error + 'a tensor option" where
  "get_target s time_index =
     ebind (getattr s ''targets'') (\<lambda>v.
     ebind (subscript v time_index) (\<lambda>e.
       case e of ENone \<Rightarrow> Inr None
       | EArray a \<Rightarrow>
           if dtype_kind a = ''i'' then Inr (Some (LongTensor a))
           else if dtype_kind a = ''f'' then Inr (Some (FloatTensor a))
           else Inr None
       | EStr x \<Rightarrow> Inl AttributeError))"

text \<open>\<^verbatim>\<open>_get_additional_feature\<close> does not test for \<^verbatim>\<open>None\<close>: \<^verbatim>\<open>None\<close> and a
  string have no \<^verbatim>\<open>dtype\<close>.\<close>

definition get_additional_feature :: "'a signal \<Rightarrow> int \<Rightarrow> 'a elem \<Rightarrow> error + 'a tensor option" where
  "get_additional_feature s time_index feature_key =
     ebind (getattr_key s feature_key) (\<lambda>v.
     ebind (subscript v time_index) (\<lambda>feature.
       case feature of
         EArray a \<Rightarrow>
           if dtype_kind a = ''i'' then Inr (Some (LongTensor a))
           else if dtype_kind a = ''f'' then Inr (Some (FloatTensor a))
           else Inr None
       | _ \<Rightarrow> Inl AttributeError))"

text \<open>The dictionary comprehension of \<^verbatim>\<open>_get_additional_features\<close>, entry by entry
  of \<^verbatim>\<open>additional_feature_keys\<close>: the method is looked up and called, then the result is
  stored under the key. The first exception ends it. An entry that is not a string has
  already raised in \<^verbatim>\<open>getattr\<close>.\<close>

fun additional_items ::
  "'a signal \<Rightarrow> int \<Rightarrow> 'a elem list \<Rightarrow> (string \<times> 'a tensor option) list \<Rightarrow>
   error + (string \<times> 'a tensor option) list" where
  "additional_items s time_index [] d = Inr d"
| "additional_items s time_index (key # keys) d =
     ebind (bound_method s ''_get_additional_feature'') (\<lambda>_.
     ebind (get_additional_feature s time_index key) (\<lambda>v.
       case key of
         EStr name \<Rightarrow> additional_items s time_index keys (dict_set name v d)
       | _ \<Rightarrow> Inl TypeError))"

definition get_additional_features ::
  "'a signal \<Rightarrow> int \<Rightarrow> error + (string \<times> 'a tensor option) list" where
  "get_additional_features s time_index =
     ebind (getattr s ''additional_feature_keys'') (\<lambda>ks.
       case ks of PList keys \<Rightarrow> additional_items s time_index keys []
       | PInt n \<Rightarrow> Inl TypeError)"

text \<open>The keyword names that \<^verbatim>\<open>__get_item__\<close> passes to \<^verbatim>\<open>Batch\<close> itself. A key of
  \<^verbatim>\<open>**additional_features\<close> equal to one of them makes the call raise
  \<^verbatim>\<open>TypeError\<close> (multiple values for the keyword argument).\<close>

definition batch_keywords :: "string list" where
  "batch_keywords = [''x'', ''edge_index'', ''edge_attr'', ''y'', ''batch'']"

text \<open>\<^verbatim>\<open>__get_item__\<close>, the specification's \<^verbatim>\<open>get_snapshot\<close>. Each accessor is looked
  up on the object when its statement is reached.\<close>

definition get_item :: "'a signal \<Rightarrow> int \<Rightarrow> error + 'a snapshot" where
  "get_item s time_index =
     ebind (bound_method s ''_get_feature'') (\<lambda>_.
     ebind (get_feature s time_index) (\<lambda>x.
     ebind (bound_method s ''_get_edge_index'') (\<lambda>_.
     ebind (get_edge_index s time_index) (\<lambda>edge_index.
     ebind (bound_method s ''_get_edge_weight'') (\<lambda>_.
     ebind (get_edge_weight s time_index) (\<lambda>edge_weight.
     ebind (bound_method s ''_get_batch_index'') (\<lambda>_.
     ebind (get_batch_index s time_index) (\<lambda>batch.
     ebind (bound_method s ''_get_target'') (\<lambda>_.
     ebind (get_target s time_index) (\<lambda>y.
     ebind (bound_method s ''_get_additional_features'') (\<lambda>_.
     ebind (get_additional_features s time_index) (\<lambda>additional_features.
       if \<exists>key \<in> set (map fst additional_features). key \<in> set batch_keywords
       then Inl TypeError
       else Inr \<lparr>snap_x = x, snap_edge_index = edge_index, snap_edge_attr = edge_weight,
                 snap_y = y, snap_batch = batch,
                 snap_extra = additional_features\<rparr>))))))))))))"

section \<open>Iteration\<close>

text \<open>\<^verbatim>\<open>__next__\<close> returns the snapshot or raises, and leaves the object with a new
  cursor \<^verbatim>\<open>t\<close>. Reading \<^verbatim>\<open>self.t\<close> before anything has set it raises
  \<^verbatim>\<open>AttributeError\<close>; comparing a list with an integer raises \<^verbatim>\<open>TypeError\<close>.\<close>

definition next_item :: "'a signal \<Rightarrow> (error + 'a snapshot) \<times> 'a signal" where
  "next_item s =
     (case getattr s ''t'' of
        Inl e \<Rightarrow> (Inl e, s)
      | Inr (PList xs) \<Rightarrow> (Inl TypeError, s)
      | Inr (PInt c) \<Rightarrow>
          (case attr_len s ''features'' of
             Inl e \<Rightarrow> (Inl e, s)
           | Inr n \<Rightarrow>
               if c < int n then
                 (case ebind (bound_method s ''__get_item__'') (\<lambda>_. get_item s c) of
                    Inl e \<Rightarrow> (Inl e, s)
                  | Inr snap \<Rightarrow> (Inr snap, s(''t'' \<mapsto> PInt (c + 1))))
               else (Inl StopIteration, s(''t'' \<mapsto> PInt 0))))"

definition iter_signal :: "'a signal \<Rightarrow> 'a signal" where
  "iter_signal s = s(''t'' \<mapsto> PInt 0)"

text \<open>A \<^verbatim>\<open>for\<close> loop over the object (or \<^verbatim>\<open>list(signal)\<close>) calls \<^verbatim>\<open>__iter__\<close> once
  and then \<^verbatim>\<open>__next__\<close> until it raises \<^verbatim>\<open>StopIteration\<close>; any other exception
  leaves the loop. \<open>collect_next\<close> is the repeated \<^verbatim>\<open>__next__\<close>, \<open>traverse\<close> the
  whole loop; both return the snapshots seen and the object as the loop leaves it.\<close>

function collect_next :: "'a signal \<Rightarrow> (error + 'a snapshot list) \<times> 'a signal" where
  "collect_next s =
     (case next_item s of
        (Inr snap, s') \<Rightarrow>
          (case collect_next s' of
             (Inl e, s'') \<Rightarrow> (Inl e, s'')
           | (Inr snaps, s'') \<Rightarrow> (Inr (snap # snaps), s''))
      | (Inl StopIteration, s') \<Rightarrow> (Inr [], s')
      | (Inl e, s') \<Rightarrow> (Inl e, s'))"
  by pat_completeness auto
termination
proof (relation "measure (\<lambda>s. case (s ''t'', s ''features'') of
                               (Some (PInt c), Some (PList xs)) \<Rightarrow> nat (int (length xs) - c)
                             | _ \<Rightarrow> 0)")
  show "wf (measure (\<lambda>s. case (s ''t'', s ''features'') of
                               (Some (PInt c), Some (PList xs)) \<Rightarrow> nat (int (length xs) - c)
                             | _ \<Rightarrow> 0))"
    by simp
next
  fix s :: "'a signal" and r and s' and snap
  assume "(r, s') = next_item s" and "r = Inr snap"
  then show "(s', s) \<in> measure (\<lambda>s. case (s ''t'', s ''features'') of
                               (Some (PInt c), Some (PList xs)) \<Rightarrow> nat (int (length xs) - c)
                             | _ \<Rightarrow> 0)"
    by (auto simp: next_item_def getattr_def attr_len_def py_len_def ebind_def
        split: option.splits if_splits sum.splits pyval.splits)
qed

definition traverse :: "'a signal \<Rightarrow> (error + 'a snapshot list) \<times> 'a signal" where
  "traverse s = collect_next (iter_signal s)"

section \<open>Names of additional features\<close>

text \<open>A keyword name becomes an attribute of the object and a keyword of the
  \<^verbatim>\<open>Batch\<close> call, so it can meet a name that is already in use: a parameter of
  \<^verbatim>\<open>__init__\<close>, an attribute or a method of the class, a name with two leading
  underscores (the special attributes and methods of every object), or one of the five
  keywords of the \<^verbatim>\<open>Batch\<close> call. The other names are fresh. The keys of a dictionary
  are distinct.\<close>

definition class_names :: "string list" where
  "class_names =
     [''additional_feature_keys'', ''snapshot_count'', ''t'',
      ''_check_temporal_consistency'', ''_set_snapshot_count'', ''_get_edge_index'',
      ''_get_batch_index'', ''_get_edge_weight'', ''_get_feature'', ''_get_target'',
      ''_get_additional_feature'', ''_get_additional_features'']"

definition reserved_name :: "string \<Rightarrow> bool" where
  "reserved_name key \<longleftrightarrow>
     key \<in> set init_params \<or> key \<in> set class_names \<or> key \<in> set batch_keywords \<or>
     take 2 key = ''__''"

definition fresh_names :: "(string \<times> 'v) list \<Rightarrow> bool" where
  "fresh_names kwargs \<longleftrightarrow>
     distinct (map fst kwargs) \<and> (\<forall>key \<in> set (map fst kwargs). \<not> reserved_name key)"

section \<open>The invariant of a constructed object\<close>

text \<open>What holds of the instance dictionary \<open>s\<close> of an object built from the lists
  \<open>ei\<close>, \<open>ew\<close>, \<open>f\<close>, \<open>tg\<close>, \<open>b\<close> and keyword arguments \<open>kw\<close> with fresh names, and
  keeps holding while the cursor moves: the five lists are there and have one length, the
  keyword names are recorded in order, each names a list of arrays of that length, and no
  method is shadowed.\<close>

definition constructed ::
  "'a signal \<Rightarrow> 'a ndarray option list \<Rightarrow> 'a ndarray option list \<Rightarrow> 'a ndarray option list \<Rightarrow>
   'a ndarray option list \<Rightarrow> 'a ndarray option list \<Rightarrow> (string \<times> 'a ndarray list) list \<Rightarrow>
   bool" where
  "constructed s ei ew f tg b kw \<longleftrightarrow>
     s ''edge_indices'' = Some (PList (map elem_of ei)) \<and>
     s ''edge_weights'' = Some (PList (map elem_of ew)) \<and>
     s ''features'' = Some (PList (map elem_of f)) \<and>
     s ''targets'' = Some (PList (map elem_of tg)) \<and>
     s ''batches'' = Some (PList (map elem_of b)) \<and>
     s ''additional_feature_keys'' = Some (PList (map (EStr \<circ> fst) kw)) \<and>
     s ''snapshot_count'' = Some (PInt (int (length f))) \<and>
     length ei = length f \<and> length ew = length f \<and> length tg = length f \<and>
     length b = length f \<and>
     fresh_names kw \<and>
     (\<forall>(key, v) \<in> set kw. s key = Some (PList (map EArray v)) \<and> length v = length f) \<and>
     (\<forall>name. name \<noteq> ''t'' \<and> reserved_name name \<and> name \<notin> set init_params \<and>
             name \<noteq> ''additional_feature_keys'' \<and> name \<noteq> ''snapshot_count''
             \<longrightarrow> s name = None)"

section \<open>Concrete signals\<close>

text \<open>A signal of four time steps over arrays of reals, used to run the functions on
  concrete input. Step 0 has every field, with a 2 by 2 integer target holding 1, 2, 3, 4;
  step 1 has floating-point targets; step 2 has boolean targets; at step 3 the five core
  entries are \<^verbatim>\<open>None\<close>. The additional feature \<^verbatim>\<open>weight_extra\<close> is of integer kind
  at steps 0 and 3, floating point at step 1 and boolean at step 2. \<open>ex_signal\<close> is
  the object the constructor returns for it.\<close>

definition arr :: "string \<Rightarrow> nat list \<Rightarrow> 'a list \<Rightarrow> 'a ndarray" where
  "arr k sh es = \<lparr>dtype_kind = k, shape = sh, elems = es\<rparr>"

definition ex_edge_indices :: "real ndarray option list" where
  "ex_edge_indices =
     [Some (arr ''i'' [2, 1] [0, 1]), Some (arr ''i'' [2, 1] [1, 0]),
      Some (arr ''i'' [2, 1] [0, 1]), None]"

definition ex_edge_weights :: "real ndarray option list" where
  "ex_edge_weights =
     [Some (arr ''f'' [1] [1 / 2]), Some (arr ''f'' [1] [1]), Some (arr ''f'' [1] [2]), None]"

definition ex_features :: "real ndarray option list" where
  "ex_features =
     [Some (arr ''f'' [2, 1] [1, 2]), Some (arr ''f'' [2, 1] [3, 4]),
      Some (arr ''f'' [2, 1] [5, 6]), None]"

definition ex_targets :: "real ndarray option list" where
  "ex_targets =
     [Some (arr ''i'' [2, 2] [1, 2, 3, 4]), Some (arr ''f'' [2] [1 / 2, 3 / 2]),
      Some (arr ''b'' [2] [1, 0]), None]"

definition ex_batches :: "real ndarray option list" where
  "ex_batches =
     [Some (arr ''i'' [2] [0, 0]), Some (arr ''i'' [2] [0, 1]), Some (arr ''i'' [2] [0, 0]),
      None]"

definition ex_extra :: "real ndarray list" where
  "ex_extra = [arr ''i'' [1] [9], arr ''f'' [1] [1 / 4], arr ''b'' [1] [1], arr ''i'' [1] [10]]"

definition ex_kwargs :: "(string \<times> real ndarray list) list" where
  "ex_kwargs = [(''weight_extra'', ex_extra)]"

definition ex_signal :: "real signal" where
  "ex_signal =
     Map.empty(''edge_indices'' \<mapsto> PList (map elem_of ex_edge_indices),
               ''edge_weights'' \<mapsto> PList (map elem_of ex_edge_weights),
               ''features'' \<mapsto> PList (map elem_of ex_features),
               ''targets'' \<mapsto> PList (map elem_of ex_targets),
               ''batches'' \<mapsto> PList (map elem_of ex_batches),
               ''weight_extra'' \<mapsto> PList (map EArray ex_extra),
               ''additional_feature_keys'' \<mapsto> PList [EStr ''weight_extra''],
               ''snapshot_count'' \<mapsto> PInt 4)"

text \<open>A signal of one time step whose five core entries are \<^verbatim>\<open>None\<close> but for the
  target \<open>tg0\<close>, with one keyword argument \<open>key = value\<close>. \<open>one_step_signal\<close> is the
  instance dictionary after \<^verbatim>\<open>__init__\<close>, written in the order of its assignments:
  the five lists, \<^verbatim>\<open>setattr(self, key, value)\<close>, the list of keys after
  \<^verbatim>\<open>append\<close>, \<^verbatim>\<open>snapshot_count\<close>.\<close>

definition one_step_signal :: "real ndarray option \<Rightarrow> string \<Rightarrow> real ndarray list \<Rightarrow> real signal" where
  "one_step_signal tg0 key value =
     Map.empty(''edge_indices'' \<mapsto> PList [ENone],
               ''edge_weights'' \<mapsto> PList [ENone],
               ''features'' \<mapsto> PList [ENone],
               ''targets'' \<mapsto> PList [elem_of tg0],
               ''batches'' \<mapsto> PList [ENone],
               key \<mapsto> PList (map EArray value),
               ''additional_feature_keys'' \<mapsto> PList [EStr key],
               ''snapshot_count'' \<mapsto> PInt 1)"

section \<open>Auxiliary facts\<close>

lemma reserved_simps:
  "reserved_name ''edge_indices''" "reserved_name ''edge_weights''" "reserved_name ''features''"
  "reserved_name ''targets''" "reserved_name ''batches''"
  "reserved_name ''additional_feature_keys''" "reserved_name ''snapshot_count''"
  "reserved_name ''t''" "reserved_name ''__class__''" "reserved_name ''__dict__''"
  "reserved_name ''__weakref__''" "reserved_name ''_check_temporal_consistency''"
  "reserved_name ''_set_snapshot_count''" "reserved_name ''_get_feature''"
  "reserved_name ''_get_edge_index''" "reserved_name ''_get_edge_weight''"
  "reserved_name ''_get_batch_index''" "reserved_name ''_get_target''"
  "reserved_name ''_get_additional_feature''" "reserved_name ''_get_additional_features''"
  "reserved_name ''__get_item__''"
  by (simp_all add: reserved_name_def init_params_def class_names_def)

lemma not_reserved_neq:
  assumes "\<not> reserved_name key"
  shows "key \<noteq> ''additional_feature_keys''" "key \<noteq> ''__class__''"
    "key \<noteq> ''__dict__''" "key \<noteq> ''__weakref__''" "key \<noteq> ''snapshot_count''"
    "key \<noteq> ''t''" "key \<noteq> ''edge_indices''" "key \<noteq> ''edge_weights''"
    "key \<noteq> ''features''" "key \<noteq> ''targets''" "key \<noteq> ''batches''"
  using assms reserved_simps by blast+

lemma not_reserved_notin:
  assumes "\<not> reserved_name key"
  shows "key \<notin> set init_params" "key \<notin> set batch_keywords"
  using assms by (simp_all add: reserved_name_def)

lemma fresh_not_reserved:
  "fresh_names kw \<Longrightarrow> reserved_name name \<Longrightarrow> map_of kw name = None"
  by (auto simp: fresh_names_def map_of_eq_None_iff)

lemma fresh_map_of:
  "fresh_names kw \<Longrightarrow> (key, v) \<in> set kw \<Longrightarrow> map_of kw key = Some v"
  by (simp add: fresh_names_def)

lemma fresh_Cons:
  "fresh_names ((key, v) # kw) \<Longrightarrow> fresh_names kw \<and> \<not> reserved_name key \<and> key \<notin> fst ` set kw"
  by (auto simp: fresh_names_def)

lemma set_kwargs_fresh:
  assumes "fresh_names kw" and "s ''additional_feature_keys'' = Some (PList ks)"
  shows "set_kwargs kw s =
     Inr (\<lambda>name. if name = ''additional_feature_keys''
                  then Some (PList (ks @ map (EStr \<circ> fst) kw))
                  else case map_of kw name of
                         Some v \<Rightarrow> Some (PList (map EArray v))
                       | None \<Rightarrow> s name)"
  using assms
proof (induction kw arbitrary: s ks)
  case Nil
  then show ?case by (auto simp: fun_eq_iff)
next
  case (Cons a kw)
  obtain key v where a: "a = (key, v)" by (cases a)
  from Cons.prems(1) have "fresh_names ((key, v) # kw)" by (simp add: a)
  from fresh_Cons [OF this] have fr: "fresh_names kw" and nr: "\<not> reserved_name key"
    and nk: "key \<notin> fst ` set kw"
    by simp_all
  note ne = not_reserved_neq [OF nr]
  let ?s2 = "(s(key \<mapsto> PList (map EArray v)))
               (''additional_feature_keys'' \<mapsto> PList (ks @ [EStr key]))"
  have step: "set_kwargs (a # kw) s = set_kwargs kw ?s2"
    using ne Cons.prems(2)
    by (simp add: a setattr_def ebind_def getattr_def py_append_def)
  have m: "map_of kw key = None"
    using nk by (simp add: map_of_eq_None_iff)
  show ?case
    unfolding step
    by (subst Cons.IH [OF fr, of ?s2 "ks @ [EStr key]"])
       (auto simp: a fun_eq_iff m ne split: option.splits)
qed

lemma check_keys_lists:
  assumes "\<forall>(key, v) \<in> set kw. s key = Some (PList (map EArray v))"
    and "s ''targets'' = Some (PList tgs)"
  shows "check_keys s (map (EStr \<circ> fst) kw) =
     (if \<forall>(key, v) \<in> set kw. length v = length tgs then Inr ()
      else Inl (AssertionError msg))"
  using assms
proof (induction kw)
  case Nil
  show ?case by simp
next
  case (Cons a kw)
  obtain key v where a: "a = (key, v)" by (cases a)
  from Cons.prems a have k: "s key = Some (PList (map EArray v))" by simp
  from Cons.prems have "\<forall>(key, v) \<in> set kw. s key = Some (PList (map EArray v))" by simp
  note ih = Cons.IH [OF this Cons.prems(2)]
  have "check_keys s (map (EStr \<circ> fst) (a # kw)) =
      (if length tgs = length v then check_keys s (map (EStr \<circ> fst) kw)
       else Inl (AssertionError msg))"
    using k Cons.prems(2)
    by (simp add: a ebind_def attr_len_def getattr_def getattr_key_def py_len_def)
  also have "\<dots> = (if \<forall>(key, v) \<in> set (a # kw). length v = length tgs then Inr ()
      else Inl (AssertionError msg))"
    unfolding ih by (auto simp: a)
  finally show ?case .
qed


lemma init_signal_fresh:
  assumes fr: "fresh_names kw"
  shows "\<exists>s1. (\<forall>name. name \<noteq> ''snapshot_count'' \<longrightarrow>
              (s1(''snapshot_count'' \<mapsto> PInt (int (length f)))) name =
                (if name = ''additional_feature_keys'' then Some (PList (map (EStr \<circ> fst) kw))
                 else if name = ''edge_indices'' then Some (PList (map elem_of ei))
                 else if name = ''edge_weights'' then Some (PList (map elem_of ew))
                 else if name = ''features'' then Some (PList (map elem_of f))
                 else if name = ''targets'' then Some (PList (map elem_of tg))
                 else if name = ''batches'' then Some (PList (map elem_of b))
                 else map_option (\<lambda>v. PList (map EArray v)) (map_of kw name))) \<and>
         init_signal ei ew f tg b kw =
           (if length f = length tg \<and> length ei = length ew \<and> length f = length ew \<and>
               length f = length b \<and> (\<forall>(key, v) \<in> set kw. length v = length tg)
            then Inr (s1(''snapshot_count'' \<mapsto> PInt (int (length f))))
            else Inl (AssertionError msg))"
proof -
  let ?s0 = "Map.empty(''edge_indices'' \<mapsto> PList (map elem_of ei),
                       ''edge_weights'' \<mapsto> PList (map elem_of ew),
                       ''features'' \<mapsto> PList (map elem_of f),
                       ''targets'' \<mapsto> PList (map elem_of tg),
                       ''batches'' \<mapsto> PList (map elem_of b),
                       ''additional_feature_keys'' \<mapsto> PList [])"
  define s1 where "s1 = (\<lambda>name. if name = ''additional_feature_keys''
                  then Some (PList ([] @ map (EStr \<circ> fst) kw))
                  else case map_of kw name of
                         Some v \<Rightarrow> Some (PList (map EArray v))
                       | None \<Rightarrow> ?s0 name)"
  have sk: "set_kwargs kw ?s0 = Inr s1"
    unfolding s1_def by (rule set_kwargs_fresh [OF fr]) simp
  have nores: "map_of kw name = None" if "reserved_name name" for name
    using fresh_not_reserved [OF fr that] .
  have core: "s1 ''edge_indices'' = Some (PList (map elem_of ei))"
    "s1 ''edge_weights'' = Some (PList (map elem_of ew))"
    "s1 ''features'' = Some (PList (map elem_of f))"
    "s1 ''targets'' = Some (PList (map elem_of tg))"
    "s1 ''batches'' = Some (PList (map elem_of b))"
    "s1 ''additional_feature_keys'' = Some (PList (map (EStr \<circ> fst) kw))"
    "s1 ''_check_temporal_consistency'' = None"
    "s1 ''_set_snapshot_count'' = None"
    by (simp_all add: s1_def nores reserved_simps)
  have keys: "\<forall>(key, v) \<in> set kw. s1 key = Some (PList (map EArray v))"
  proof (clarify)
    fix key v assume kv: "(key, v) \<in> set kw"
    with fr have "\<not> reserved_name key" by (force simp: fresh_names_def)
    from not_reserved_neq(1) [OF this] fresh_map_of [OF fr kv]
    show "s1 key = Some (PList (map EArray v))"
      by (simp add: s1_def)
  qed
  have lens: "attr_len s1 ''features'' = Inr (length f)"
    "attr_len s1 ''targets'' = Inr (length tg)"
    "attr_len s1 ''edge_indices'' = Inr (length ei)"
    "attr_len s1 ''edge_weights'' = Inr (length ew)"
    "attr_len s1 ''batches'' = Inr (length b)"
    by (simp_all add: attr_len_def getattr_def ebind_def py_len_def core)
  have ck: "check_keys s1 (map (EStr \<circ> fst) kw) =
     (if \<forall>(key, v) \<in> set kw. length v = length tg then Inr ()
      else Inl (AssertionError msg))"
    using check_keys_lists [OF keys core(4)] by simp
  have ctc: "check_temporal_consistency s1 =
      (if length f = length tg \<and> length ei = length ew \<and> length f = length ew \<and>
          length f = length b \<and> (\<forall>(key, v) \<in> set kw. length v = length tg)
       then Inr () else Inl (AssertionError msg))"
    unfolding check_temporal_consistency_def lens
    by (simp add: ebind_def getattr_def core(6) ck)
  have np: "\<not> (\<exists>key \<in> set (map fst kw). key \<in> set init_params)"
    using fr not_reserved_notin(1) by (force simp: fresh_names_def)
  have ssc: "set_snapshot_count s1 = Inr (s1(''snapshot_count'' \<mapsto> PInt (int (length f))))"
    by (simp add: set_snapshot_count_def lens ebind_def)
  have "init_signal ei ew f tg b kw =
           (if length f = length tg \<and> length ei = length ew \<and> length f = length ew \<and>
               length f = length b \<and> (\<forall>(key, v) \<in> set kw. length v = length tg)
            then Inr (s1(''snapshot_count'' \<mapsto> PInt (int (length f))))
            else Inl (AssertionError msg))"
    unfolding init_signal_def if_not_P [OF np] sk
    by (simp add: ebind_def bound_method_def core ctc ssc)
  moreover have "(s1(''snapshot_count'' \<mapsto> PInt (int (length f)))) name =
                (if name = ''additional_feature_keys'' then Some (PList (map (EStr \<circ> fst) kw))
                 else if name = ''edge_indices'' then Some (PList (map elem_of ei))
                 else if name = ''edge_weights'' then Some (PList (map elem_of ew))
                 else if name = ''features'' then Some (PList (map elem_of f))
                 else if name = ''targets'' then Some (PList (map elem_of tg))
                 else if name = ''batches'' then Some (PList (map elem_of b))
                 else map_option (\<lambda>v. PList (map EArray v)) (map_of kw name))"
    if "name \<noteq> ''snapshot_count''" for name
    using that by (auto simp: s1_def nores reserved_simps split: option.splits)
  ultimately show ?thesis by blast
qed


lemma init_fresh_constructed:
  assumes fr: "fresh_names kw" and i: "init_signal ei ew f tg b kw = Inr s"
  shows "constructed s ei ew f tg b kw" and "s ''t'' = None"
proof -
  from init_signal_fresh [OF fr, of f ei ew tg b] obtain s1 where
    nm: "\<And>name. name \<noteq> ''snapshot_count'' \<Longrightarrow>
              (s1(''snapshot_count'' \<mapsto> PInt (int (length f)))) name =
                (if name = ''additional_feature_keys'' then Some (PList (map (EStr \<circ> fst) kw))
                 else if name = ''edge_indices'' then Some (PList (map elem_of ei))
                 else if name = ''edge_weights'' then Some (PList (map elem_of ew))
                 else if name = ''features'' then Some (PList (map elem_of f))
                 else if name = ''targets'' then Some (PList (map elem_of tg))
                 else if name = ''batches'' then Some (PList (map elem_of b))
                 else map_option (\<lambda>v. PList (map EArray v)) (map_of kw name))"
    and r: "init_signal ei ew f tg b kw =
           (if length f = length tg \<and> length ei = length ew \<and> length f = length ew \<and>
               length f = length b \<and> (\<forall>(key, v) \<in> set kw. length v = length tg)
            then Inr (s1(''snapshot_count'' \<mapsto> PInt (int (length f))))
            else Inl (AssertionError msg))"
    by blast
  from r i have ok: "length f = length tg" "length ei = length ew" "length f = length ew"
    "length f = length b" "\<forall>(key, v) \<in> set kw. length v = length tg"
    and s: "s = s1(''snapshot_count'' \<mapsto> PInt (int (length f)))"
    by (simp_all split: if_splits)
  have nm': "s name =
                (if name = ''additional_feature_keys'' then Some (PList (map (EStr \<circ> fst) kw))
                 else if name = ''edge_indices'' then Some (PList (map elem_of ei))
                 else if name = ''edge_weights'' then Some (PList (map elem_of ew))
                 else if name = ''features'' then Some (PList (map elem_of f))
                 else if name = ''targets'' then Some (PList (map elem_of tg))
                 else if name = ''batches'' then Some (PList (map elem_of b))
                 else map_option (\<lambda>v. PList (map EArray v)) (map_of kw name))"
    if "name \<noteq> ''snapshot_count''" for name
    unfolding s using nm [OF that] .
  have core: "s ''edge_indices'' = Some (PList (map elem_of ei))"
    "s ''edge_weights'' = Some (PList (map elem_of ew))"
    "s ''features'' = Some (PList (map elem_of f))"
    "s ''targets'' = Some (PList (map elem_of tg))"
    "s ''batches'' = Some (PList (map elem_of b))"
    "s ''additional_feature_keys'' = Some (PList (map (EStr \<circ> fst) kw))"
    by (simp_all add: nm')
  have sc: "s ''snapshot_count'' = Some (PInt (int (length f)))"
    by (simp add: s)
  have keys: "s key = Some (PList (map EArray v)) \<and> length v = length f"
    if kv: "(key, v) \<in> set kw" for key v
  proof -
    from fr kv have nr: "\<not> reserved_name key" by (force simp: fresh_names_def)
    note ne = not_reserved_neq [OF nr]
    from nm' [OF ne(5)] ne fresh_map_of [OF fr kv] ok(1,5) kv show ?thesis
      by auto
  qed
  have rest: "s name = None"
    if "name \<noteq> ''t'' \<and> reserved_name name \<and> name \<notin> set init_params \<and>
        name \<noteq> ''additional_feature_keys'' \<and> name \<noteq> ''snapshot_count''" for name
  proof -
    from that have "map_of kw name = None"
      using fresh_not_reserved [OF fr] by blast
    moreover from that have "name \<noteq> ''edge_indices''" "name \<noteq> ''edge_weights''"
      "name \<noteq> ''features''" "name \<noteq> ''targets''" "name \<noteq> ''batches''"
      by (auto simp: init_params_def)
    ultimately show ?thesis
      using nm' [of name] that by simp
  qed
  show "constructed s ei ew f tg b kw"
    unfolding constructed_def using core sc ok fr keys rest by auto
  from nm' [of "''t''"] fresh_not_reserved [OF fr reserved_simps(8)]
  show "s ''t'' = None" by simp
qed

lemma list_index_in_range:
  assumes "- int (length xs) \<le> i" and "i < int (length xs)"
    and "j = nat (if i < 0 then i + int (length xs) else i)"
  shows "list_index xs i = Inr (xs ! j)" and "j < length xs"
  using assms by (auto simp: list_index_def)

lemma list_index_outside:
  "i < - int (length xs) \<or> int (length xs) \<le> i \<Longrightarrow> list_index xs i = Inl IndexError"
  by (simp add: list_index_def)

lemma case_elem_of:
  "(case elem_of e of ENone \<Rightarrow> Inr None | EArray a \<Rightarrow> Inr (Some (g a)) | EStr x \<Rightarrow> Inl err)
     = Inr (map_option g e)"
  by (cases e) (simp_all add: elem_of_def)

lemma dict_set_new: "key \<notin> fst ` set d \<Longrightarrow> dict_set key v d = d @ [(key, v)]"
  by (induction d) auto

lemma additional_items_lists:
  assumes "\<forall>(key, v) \<in> set kw. s key = Some (PList (map EArray v)) \<and> length v = n"
    and "s ''_get_additional_feature'' = None"
    and "distinct (map fst kw)" and "fst ` set kw \<inter> fst ` set d = {}"
    and "- int n \<le> i" and "i < int n"
    and "j = nat (if i < 0 then i + int n else i)"
  shows "additional_items s i (map (EStr \<circ> fst) kw) d =
     Inr (d @ map (\<lambda>(key, v). (key, (if dtype_kind (v ! j) = ''i'' then Some (LongTensor (v ! j))
                   else if dtype_kind (v ! j) = ''f'' then Some (FloatTensor (v ! j))
                   else None))) kw)"
  using assms
proof (induction kw arbitrary: d)
  case Nil
  show ?case by simp
next
  case (Cons a kw)
  obtain key v where a: "a = (key, v)" by (cases a)
  from Cons.prems(1) a have k: "s key = Some (PList (map EArray v))" and l: "length v = n"
    by simp_all
  from list_index_in_range [of "map EArray v" i j] Cons.prems(5,6,7) l
  have li: "list_index (map EArray v) i = Inr (EArray (v ! j))"
    by simp
  have gaf: "get_additional_feature s i (EStr key) = Inr (if dtype_kind (v ! j) = ''i'' then Some (LongTensor (v ! j))
                   else if dtype_kind (v ! j) = ''f'' then Some (FloatTensor (v ! j))
                   else None)"
    by (simp add: get_additional_feature_def getattr_key_def getattr_def k ebind_def
        subscript_def li)
  from Cons.prems(4) a have nd: "key \<notin> fst ` set d" by auto
  have step: "additional_items s i (map (EStr \<circ> fst) (a # kw)) d =
      additional_items s i (map (EStr \<circ> fst) kw) (d @ [(key, (if dtype_kind (v ! j) = ''i'' then Some (LongTensor (v ! j))
                   else if dtype_kind (v ! j) = ''f'' then Some (FloatTensor (v ! j))
                   else None))])"
    by (simp add: a bound_method_def Cons.prems(2) ebind_def gaf dict_set_new [OF nd])
  from Cons.prems(1) have p1: "\<forall>(key, v) \<in> set kw.
      s key = Some (PList (map EArray v)) \<and> length v = n" by simp
  from Cons.prems(3) have p3: "distinct (map fst kw)" by simp
  from Cons.prems(3,4) a have p4: "fst ` set kw \<inter> fst ` set (d @ [(key, (if dtype_kind (v ! j) = ''i'' then Some (LongTensor (v ! j))
                   else if dtype_kind (v ! j) = ''f'' then Some (FloatTensor (v ! j))
                   else None))]) = {}"
    by auto
  show ?case
    unfolding step
    by (subst Cons.IH [OF p1 Cons.prems(2) p3 p4 Cons.prems(5,6,7)]) (simp add: a)
qed


lemma constructed_methods:
  assumes "constructed s ei ew f tg b kw"
  shows "s ''_get_feature'' = None" "s ''_get_edge_index'' = None"
    "s ''_get_edge_weight'' = None" "s ''_get_batch_index'' = None"
    "s ''_get_target'' = None" "s ''_get_additional_features'' = None"
    "s ''_get_additional_feature'' = None" "s ''__get_item__'' = None"
proof -
  from assms have r: "\<And>name. name \<noteq> ''t'' \<and> reserved_name name \<and>
      name \<notin> set init_params \<and> name \<noteq> ''additional_feature_keys'' \<and>
      name \<noteq> ''snapshot_count'' \<Longrightarrow> s name = None"
    unfolding constructed_def by blast
  show "s ''_get_feature'' = None" "s ''_get_edge_index'' = None"
    "s ''_get_edge_weight'' = None" "s ''_get_batch_index'' = None"
    "s ''_get_target'' = None" "s ''_get_additional_features'' = None"
    "s ''_get_additional_feature'' = None" "s ''__get_item__'' = None"
    by (rule r, simp add: reserved_simps init_params_def)+
qed

lemma get_item_constructed:
  assumes c: "constructed s ei ew f tg b kw"
    and r: "- int (length f) \<le> i" "i < int (length f)"
    and j: "j = nat (if i < 0 then i + int (length f) else i)"
  shows "get_item s i = Inr \<lparr>snap_x = map_option FloatTensor (f ! j),
          snap_edge_index = map_option LongTensor (ei ! j),
          snap_edge_attr = map_option FloatTensor (ew ! j),
          snap_y = (case tg ! j of None \<Rightarrow> None
                    | Some a \<Rightarrow> if dtype_kind a = ''i'' then Some (LongTensor a)
                                else if dtype_kind a = ''f'' then Some (FloatTensor a)
                                else None),
          snap_batch = map_option LongTensor (b ! j),
          snap_extra = map (\<lambda>(key, v). (key, (if dtype_kind (v ! j) = ''i'' then Some (LongTensor (v ! j))
                   else if dtype_kind (v ! j) = ''f'' then Some (FloatTensor (v ! j))
                   else None))) kw\<rparr>"
proof -
  note m = constructed_methods [OF c]
  from c have core: "s ''edge_indices'' = Some (PList (map elem_of ei))"
    "s ''edge_weights'' = Some (PList (map elem_of ew))"
    "s ''features'' = Some (PList (map elem_of f))"
    "s ''targets'' = Some (PList (map elem_of tg))"
    "s ''batches'' = Some (PList (map elem_of b))"
    "s ''additional_feature_keys'' = Some (PList (map (EStr \<circ> fst) kw))"
    and l: "length ei = length f" "length ew = length f" "length tg = length f"
    "length b = length f"
    and fr: "fresh_names kw"
    and keys: "\<forall>(key, v) \<in> set kw. s key = Some (PList (map EArray v)) \<and> length v = length f"
    unfolding constructed_def by simp_all
  have sub: "subscript (PList (map elem_of xs)) i = Inr (elem_of (xs ! j))"
    if "length xs = length f" for xs :: "'a ndarray option list"
    using list_index_in_range [of "map elem_of xs" i j] r j that
    by (simp add: subscript_def)
  have x: "get_feature s i = Inr (map_option FloatTensor (f ! j))"
    by (simp add: get_feature_def getattr_def core ebind_def sub case_elem_of)
  have e: "get_edge_index s i = Inr (map_option LongTensor (ei ! j))"
    by (simp add: get_edge_index_def getattr_def core ebind_def sub l case_elem_of)
  have w: "get_edge_weight s i = Inr (map_option FloatTensor (ew ! j))"
    by (simp add: get_edge_weight_def getattr_def core ebind_def sub l case_elem_of)
  have bt: "get_batch_index s i = Inr (map_option LongTensor (b ! j))"
    by (simp add: get_batch_index_def getattr_def core ebind_def sub l case_elem_of)
  have y: "get_target s i = Inr (case tg ! j of None \<Rightarrow> None
                    | Some a \<Rightarrow> if dtype_kind a = ''i'' then Some (LongTensor a)
                                else if dtype_kind a = ''f'' then Some (FloatTensor a)
                                else None)"
    by (simp add: get_target_def getattr_def core ebind_def sub l elem_of_def
        split: option.splits)
  from fr have d: "distinct (map fst kw)" by (simp add: fresh_names_def)
  have a: "get_additional_features s i =
      Inr (map (\<lambda>(key, v). (key, (if dtype_kind (v ! j) = ''i'' then Some (LongTensor (v ! j))
                   else if dtype_kind (v ! j) = ''f'' then Some (FloatTensor (v ! j))
                   else None))) kw)"
    using additional_items_lists [OF keys m(7) d _ r j, of "[]"]
    by (simp add: get_additional_features_def getattr_def core ebind_def)
  have nb: "\<not> (\<exists>key \<in> set (map fst (map (\<lambda>(key, v). (key, (if dtype_kind (v ! j) = ''i'' then Some (LongTensor (v ! j))
                   else if dtype_kind (v ! j) = ''f'' then Some (FloatTensor (v ! j))
                   else None))) kw)).
                key \<in> set batch_keywords)"
    using fr not_reserved_notin(2) by (force simp: fresh_names_def)
  show ?thesis
    unfolding get_item_def
    by (simp only: bound_method_def m option.case ebind_def sum.case x e w bt y a
        if_not_P [OF nb])
qed

lemma get_item_outside:
  assumes c: "constructed s ei ew f tg b kw"
    and "i < - int (length f) \<or> int (length f) \<le> i"
  shows "get_item s i = Inl IndexError"
proof -
  from c have "s ''features'' = Some (PList (map elem_of f))"
    unfolding constructed_def by simp
  with assms(2) constructed_methods(1) [OF c] show ?thesis
    by (simp add: get_item_def bound_method_def ebind_def get_feature_def getattr_def
        subscript_def list_index_outside)
qed

lemma constructed_cursor:
  assumes c: "constructed s ei ew f tg b kw"
  shows "constructed (s(''t'' \<mapsto> v)) ei ew f tg b kw"
proof -
  from c have fr: "fresh_names kw" unfolding constructed_def by simp
  have "key \<noteq> ''t''" if "(key, w) \<in> set kw" for key w
  proof -
    from fr that have "\<not> reserved_name key" by (force simp: fresh_names_def)
    from not_reserved_neq(6) [OF this] show ?thesis .
  qed
  with c show ?thesis
    unfolding constructed_def by auto
qed


lemma get_item_cursor:
  assumes c: "constructed s ei ew f tg b kw"
    and r: "- int (length f) \<le> i" "i < int (length f)"
  shows "get_item (s(''t'' \<mapsto> v)) i = get_item s i"
  using get_item_constructed [OF c r refl]
    get_item_constructed [OF constructed_cursor [OF c] r refl]
  by simp

lemma collect_next_from:
  assumes "constructed s ei ew f tg b kw" and "s ''t'' = Some (PInt cur)" and "0 \<le> cur"
    and "cur \<le> int (length f)"
  shows "collect_next s =
     (Inr (map (\<lambda>i. projr (get_item s (int i))) [nat cur..<length f]),
      s(''t'' \<mapsto> PInt 0))"
  using assms
proof (induction "length f - nat cur" arbitrary: s cur)
  case 0
  from 0(2) have ft: "s ''features'' = Some (PList (map elem_of f))"
    unfolding constructed_def by simp
  from 0 have "\<not> cur < int (length f)" by linarith
  with 0 ft have "next_item s = (Inl StopIteration, s(''t'' \<mapsto> PInt 0))"
    by (simp add: next_item_def getattr_def attr_len_def py_len_def ebind_def)
  moreover from 0 have "[nat cur..<length f] = []" by simp
  ultimately show ?case
    by (subst collect_next.simps) simp
next
  case (Suc n)
  note c = Suc.prems(1)
  from c have ft: "s ''features'' = Some (PList (map elem_of f))"
    unfolding constructed_def by simp
  from Suc have lt: "cur < int (length f)" by linarith
  let ?s' = "s(''t'' \<mapsto> PInt (cur + 1))"
  from get_item_constructed [OF c _ lt refl] Suc.prems(3)
  obtain snap where g: "get_item s cur = Inr snap" by auto
  with Suc.prems(2) lt ft constructed_methods(8) [OF c]
  have nx: "next_item s = (Inr snap, ?s')"
    by (simp add: next_item_def getattr_def attr_len_def py_len_def ebind_def
        bound_method_def)
  have n: "n = length f - nat (cur + 1)"
    using Suc.hyps(2) Suc.prems(3) by simp
  have c': "constructed ?s' ei ew f tg b kw"
    by (rule constructed_cursor [OF c])
  have "collect_next ?s' =
     (Inr (map (\<lambda>i. projr (get_item ?s' (int i))) [nat (cur + 1)..<length f]),
      ?s'(''t'' \<mapsto> PInt 0))"
    using Suc.hyps(1) [OF n c'] Suc.prems(3) lt by simp
  moreover have "map (\<lambda>i. projr (get_item ?s' (int i))) [nat (cur + 1)..<length f] =
      map (\<lambda>i. projr (get_item s (int i))) [nat (cur + 1)..<length f]"
    by (rule map_cong [OF refl]) (simp add: get_item_cursor [OF c])
  ultimately have ih: "collect_next ?s' =
     (Inr (map (\<lambda>i. projr (get_item s (int i))) [nat (cur + 1)..<length f]),
      s(''t'' \<mapsto> PInt 0))"
    by simp
  have "[nat cur..<length f] = nat cur # [nat (cur + 1)..<length f]"
    using lt Suc.prems(3) by (simp add: upt_conv_Cons nat_add_distrib)
  with g Suc.prems(3) have
    "map (\<lambda>i. projr (get_item s (int i))) [nat cur..<length f] =
     snap # map (\<lambda>i. projr (get_item s (int i))) [nat (cur + 1)..<length f]"
    by simp
  with nx ih show ?case
    by (subst collect_next.simps) simp
qed

lemma arr_sel [simp]:
  "dtype_kind (arr k sh es) = k" "shape (arr k sh es) = sh" "elems (arr k sh es) = es"
  by (simp_all add: arr_def)

lemma ex_init:
  "init_signal ex_edge_indices ex_edge_weights ex_features ex_targets ex_batches ex_kwargs
     = Inr ex_signal"
  by (auto simp add: init_signal_def ebind_def check_temporal_consistency_def getattr_def
      getattr_key_def attr_len_def py_len_def py_append_def setattr_def bound_method_def
      set_snapshot_count_def init_params_def fun_eq_iff
      ex_signal_def ex_kwargs_def ex_edge_indices_def
      ex_edge_weights_def ex_features_def ex_targets_def ex_batches_def ex_extra_def)

lemma ex_fresh: "fresh_names ex_kwargs"
  by (simp add: fresh_names_def ex_kwargs_def reserved_name_def init_params_def
      class_names_def batch_keywords_def)

lemma get_item_nonneg:
  assumes fr: "fresh_names kw" and i: "init_signal ei ew f tg b kw = Inr s"
    and r: "0 \<le> i" "i < int (length f)"
  shows "get_item s i =
     Inr \<lparr>snap_x = map_option FloatTensor (f ! nat i),
          snap_edge_index = map_option LongTensor (ei ! nat i),
          snap_edge_attr = map_option FloatTensor (ew ! nat i),
          snap_y = (case tg ! nat i of None \<Rightarrow> None
                    | Some a \<Rightarrow> if dtype_kind a = ''i'' then Some (LongTensor a)
                                else if dtype_kind a = ''f'' then Some (FloatTensor a)
                                else None),
          snap_batch = map_option LongTensor (b ! nat i),
          snap_extra = map (\<lambda>(key, v). (key, (if dtype_kind (v ! nat i) = ''i'' then Some (LongTensor (v ! nat i))
                   else if dtype_kind (v ! nat i) = ''f'' then Some (FloatTensor (v ! nat i))
                   else None))) kw\<rparr>"
  using get_item_constructed [OF init_fresh_constructed(1) [OF fr i] _ r(2) refl] r(1)
  by simp

lemma extra_lookup:
  assumes fr: "fresh_names kw" and kv: "(key, v) \<in> set kw"
  shows "map_of (map (\<lambda>(key, v). (key, g v)) kw) key = Some (g v)"
proof -
  have "map_of (map (\<lambda>(key, v). (key, g v)) kw) = map_option g \<circ> map_of kw"
    by (rule map_of_map)
  with fresh_map_of [OF fr kv] show ?thesis by simp
qed

section \<open>The claims\<close>

text \<open>C1. Construction does not fail for every mismatch of lengths. With five core lists
  of length 1 and the keyword argument \<^verbatim>\<open>additional_feature_keys=[]\<close>, a list of
  length 0, \<^verbatim>\<open>setattr\<close> replaces the list of keys by the argument, \<^verbatim>\<open>append\<close>
  makes it \<^verbatim>\<open>['additional_feature_keys']\<close>, the loop of
  \<^verbatim>\<open>_check_temporal_consistency\<close> measures that list, of length 1, and an object is
  returned.\<close>

theorem construction_key_list_counterexample:
  "length ([] :: real ndarray list) \<noteq> length [None :: real ndarray option] \<and>
   init_signal [None] [None] [None] [None] [None] [(''additional_feature_keys'', [])] =
     Inr (one_step_signal None ''additional_feature_keys'' [])"
  by (auto simp add: init_signal_def ebind_def check_temporal_consistency_def getattr_def
      getattr_key_def attr_len_def py_len_def py_append_def setattr_def bound_method_def
      set_snapshot_count_def init_params_def fun_eq_iff one_step_signal_def elem_of_def
      get_item_def get_feature_def get_edge_index_def get_edge_weight_def get_batch_index_def
      get_target_def get_additional_features_def get_additional_feature_def subscript_def
      list_index_def batch_keywords_def)

text \<open>C1, amended. When the names of the additional features are fresh: whenever the
  five core lists do not all have the same length, or the list of some additional feature
  has a length other than that of the core lists, \<^verbatim>\<open>__init__\<close> raises the
  \<^verbatim>\<open>AssertionError\<close> of \<^verbatim>\<open>_check_temporal_consistency\<close> (the specification's
  \<^verbatim>\<open>InconsistentLengthError\<close>), whichever list is the odd one out, and returns no
  object.\<close>

theorem construction_rejects_inconsistent_lengths:
  assumes fr: "fresh_names kw"
    and bad: "\<not> (length ei = length ew \<and> length ew = length f \<and> length f = length tg \<and>
              length tg = length b) \<or> (\<exists>(key, v) \<in> set kw. length v \<noteq> length f)"
  shows "init_signal ei ew f tg b kw = Inl (AssertionError msg)"
proof -
  from init_signal_fresh [OF fr, of f ei ew tg b] obtain s1 where
    r: "init_signal ei ew f tg b kw =
           (if length f = length tg \<and> length ei = length ew \<and> length f = length ew \<and>
               length f = length b \<and> (\<forall>(key, v) \<in> set kw. length v = length tg)
            then Inr (s1(''snapshot_count'' \<mapsto> PInt (int (length f))))
            else Inl (AssertionError msg))"
    by blast
  from bad have "\<not> (length f = length tg \<and> length ei = length ew \<and> length f = length ew \<and>
               length f = length b \<and> (\<forall>(key, v) \<in> set kw. length v = length tg))"
    by fastforce
  with r show ?thesis by simp
qed

theorem construction_rejects_inconsistent_lengths_witness:
  "fresh_names ex_kwargs \<and>
   length (None # ex_features) \<noteq> length ex_targets \<and>
   init_signal ex_edge_indices ex_edge_weights (None # ex_features) ex_targets ex_batches
     ex_kwargs = Inl (AssertionError msg) \<and>
   fresh_names [(''weight_extra'', tl ex_extra)] \<and>
   (''weight_extra'', tl ex_extra) \<in> set [(''weight_extra'', tl ex_extra)] \<and>
   length (tl ex_extra) \<noteq> length ex_features \<and>
   init_signal ex_edge_indices ex_edge_weights ex_features ex_targets ex_batches
     [(''weight_extra'', tl ex_extra)] = Inl (AssertionError msg)"
proof -
  have f2: "fresh_names [(''weight_extra'', tl ex_extra)]"
    using ex_fresh by (simp add: fresh_names_def ex_kwargs_def)
  have b1: "\<not> (length ex_edge_indices = length ex_edge_weights \<and>
      length ex_edge_weights = length (None # ex_features) \<and>
      length (None # ex_features) = length ex_targets \<and>
      length ex_targets = length ex_batches) \<or>
      (\<exists>(key, v) \<in> set ex_kwargs. length v \<noteq> length (None # ex_features))"
    by (simp add: ex_features_def ex_targets_def)
  have b2: "\<not> (length ex_edge_indices = length ex_edge_weights \<and>
      length ex_edge_weights = length ex_features \<and>
      length ex_features = length ex_targets \<and>
      length ex_targets = length ex_batches) \<or>
      (\<exists>(key, v) \<in> set [(''weight_extra'', tl ex_extra)]. length v \<noteq> length ex_features)"
    by (simp add: ex_features_def ex_extra_def)
  show ?thesis
    using construction_rejects_inconsistent_lengths [OF ex_fresh b1]
      construction_rejects_inconsistent_lengths [OF f2 b2] ex_fresh f2
    by (simp add: ex_features_def ex_targets_def ex_extra_def)
qed

text \<open>C2. Not every constructed object returns a snapshot at every index in range. With
  the keyword argument \<^verbatim>\<open>y=[a]\<close> construction succeeds, and at index 0 the call
  \<^verbatim>\<open>Batch(..., y=y, ..., **additional_features)\<close> gets the keyword \<^verbatim>\<open>y\<close> twice
  and raises \<^verbatim>\<open>TypeError\<close>.\<close>

theorem access_batch_keyword_counterexample:
  "init_signal [None] [None] [None] [None] [None] [(''y'', [arr ''i'' [1] [1]])] =
     Inr (one_step_signal None ''y'' [arr ''i'' [1] [1]]) \<and>
   one_step_signal None ''y'' [arr ''i'' [1] [1]] ''snapshot_count'' = Some (PInt 1) \<and>
   get_item (one_step_signal None ''y'' [arr ''i'' [1] [1]]) 0 = Inl TypeError"
  by (auto simp add: init_signal_def ebind_def check_temporal_consistency_def getattr_def
      getattr_key_def attr_len_def py_len_def py_append_def setattr_def bound_method_def
      set_snapshot_count_def init_params_def fun_eq_iff one_step_signal_def elem_of_def
      get_item_def get_feature_def get_edge_index_def get_edge_weight_def get_batch_index_def
      get_target_def get_additional_features_def get_additional_feature_def subscript_def
      list_index_def batch_keywords_def)

text \<open>C2, amended. When the names of the additional features are fresh: after a
  successful construction \<^verbatim>\<open>snapshot_count\<close> is the common length of the five lists,
  and \<^verbatim>\<open>__get_item__\<close> returns a snapshot at every index \<open>i\<close> with
  \<open>0 \<le> i < snapshot_count\<close>.\<close>

theorem snapshot_count_and_access_in_range:
  assumes "fresh_names kw" and "init_signal ei ew f tg b kw = Inr s"
  shows "s ''snapshot_count'' = Some (PInt (int (length f))) \<and>
         length ei = length f \<and> length ew = length f \<and> length tg = length f \<and>
         length b = length f \<and>
         (0 \<le> i \<and> i < int (length f) \<longrightarrow> (\<exists>snap. get_item s i = Inr snap))"
proof -
  note c = init_fresh_constructed(1) [OF assms]
  have "\<exists>snap. get_item s i = Inr snap" if "0 \<le> i" "i < int (length f)"
    using get_item_constructed [OF c _ that(2) refl] that(1) by simp
  with c show ?thesis
    unfolding constructed_def by blast
qed

theorem snapshot_count_and_access_in_range_witness:
  "fresh_names ex_kwargs \<and>
   init_signal ex_edge_indices ex_edge_weights ex_features ex_targets ex_batches ex_kwargs
     = Inr ex_signal \<and>
   ex_signal ''snapshot_count'' = Some (PInt 4) \<and> (\<exists>snap. get_item ex_signal 2 = Inr snap)"
  using snapshot_count_and_access_in_range [OF ex_fresh ex_init, of 2] ex_init ex_fresh
  by (auto simp add: ex_features_def)

text \<open>C3. \<^verbatim>\<open>__get_item__\<close> does not raise \<^verbatim>\<open>IndexError\<close> at every index outside
  \<open>0 \<le> i < snapshot_count\<close>. The lists are indexed with Python's list indexing, so
  index \<open>-1\<close> of the four-step signal is its last step. And with the keyword argument
  \<^verbatim>\<open>_get_feature=[a]\<close> the attribute hides the method: index 1 of that one-step
  signal raises \<^verbatim>\<open>TypeError\<close>, a list not being callable.\<close>

theorem negative_index_counterexample:
  "init_signal ex_edge_indices ex_edge_weights ex_features ex_targets ex_batches ex_kwargs
     = Inr ex_signal \<and>
   ex_signal ''snapshot_count'' = Some (PInt 4) \<and>
   get_item ex_signal (- 1) =
     Inr \<lparr>snap_x = None, snap_edge_index = None, snap_edge_attr = None, snap_y = None,
          snap_batch = None,
          snap_extra = [(''weight_extra'', Some (LongTensor (arr ''i'' [1] [10])))]\<rparr> \<and>
   get_item ex_signal (- 1) \<noteq> Inl IndexError \<and>
   init_signal [None] [None] [None] [None] [None] [(''_get_feature'', [arr ''i'' [1] [1]])] =
     Inr (one_step_signal None ''_get_feature'' [arr ''i'' [1] [1]]) \<and>
   get_item (one_step_signal None ''_get_feature'' [arr ''i'' [1] [1]]) 1 = Inl TypeError"
proof -
  have "get_item ex_signal (- 1) =
     Inr \<lparr>snap_x = None, snap_edge_index = None, snap_edge_attr = None, snap_y = None,
          snap_batch = None,
          snap_extra = [(''weight_extra'', Some (LongTensor (arr ''i'' [1] [10])))]\<rparr>"
    by (simp add: get_item_def get_feature_def get_edge_index_def get_edge_weight_def
        get_batch_index_def get_target_def get_additional_features_def
        get_additional_feature_def getattr_def getattr_key_def subscript_def list_index_def
        ebind_def bound_method_def batch_keywords_def elem_of_def
        ex_signal_def ex_kwargs_def ex_edge_indices_def ex_edge_weights_def
        ex_features_def ex_targets_def ex_batches_def ex_extra_def)
  moreover have "ex_signal ''snapshot_count'' = Some (PInt 4)"
    by (simp add: ex_signal_def)
  moreover have
    "init_signal [None] [None] [None] [None] [None] [(''_get_feature'', [arr ''i'' [1] [1]])] =
       Inr (one_step_signal None ''_get_feature'' [arr ''i'' [1] [1 :: real]]) \<and>
     get_item (one_step_signal None ''_get_feature'' [arr ''i'' [1] [1 :: real]]) 1 =
       Inl TypeError"
    by (auto simp add: init_signal_def ebind_def check_temporal_consistency_def getattr_def
      getattr_key_def attr_len_def py_len_def py_append_def setattr_def bound_method_def
      set_snapshot_count_def init_params_def fun_eq_iff one_step_signal_def elem_of_def
      get_item_def get_feature_def get_edge_index_def get_edge_weight_def get_batch_index_def
      get_target_def get_additional_features_def get_additional_feature_def subscript_def
      list_index_def batch_keywords_def)
  ultimately show ?thesis
    using ex_init by simp
qed

text \<open>C3, amended. When the names of the additional features are fresh:
  \<^verbatim>\<open>__get_item__\<close> raises \<^verbatim>\<open>IndexError\<close> at every index \<open>i \<ge> snapshot_count\<close>
  and at every index \<open>i < - snapshot_count\<close>.\<close>

theorem access_out_of_range_fails:
  assumes "fresh_names kw" and "init_signal ei ew f tg b kw = Inr s"
    and "i < - int (length f) \<or> int (length f) \<le> i"
  shows "s ''snapshot_count'' = Some (PInt (int (length f))) \<and> get_item s i = Inl IndexError"
proof -
  note c = init_fresh_constructed(1) [OF assms(1,2)]
  from get_item_outside [OF c assms(3)] c show ?thesis
    unfolding constructed_def by simp
qed

theorem access_out_of_range_fails_witness:
  "fresh_names ex_kwargs \<and>
   init_signal ex_edge_indices ex_edge_weights ex_features ex_targets ex_batches ex_kwargs
     = Inr ex_signal \<and>
   int (length ex_features) \<le> 4 \<and> get_item ex_signal 4 = Inl IndexError \<and>
   - 5 < - int (length ex_features) \<and> get_item ex_signal (- 5) = Inl IndexError"
  using access_out_of_range_fails [OF ex_fresh ex_init, of 4]
    access_out_of_range_fails [OF ex_fresh ex_init, of "- 5"] ex_init ex_fresh
  by (auto simp add: ex_features_def)







text \<open>C8. The dictionary of additional features does not exist for every keyword name:
  with the keyword argument \<^verbatim>\<open>snapshot_count=[a]\<close> construction succeeds, then
  \<^verbatim>\<open>_set_snapshot_count\<close> replaces the list by the integer 1, and in
  \<^verbatim>\<open>__get_item__(0)\<close> the expression \<^verbatim>\<open>getattr(self, key)[time_index]\<close> subscripts
  that integer and raises \<^verbatim>\<open>TypeError\<close>.\<close>

theorem additional_features_counterexample:
  "init_signal [None] [None] [None] [None] [None] [(''snapshot_count'', [arr ''i'' [1] [9]])] =
     Inr (one_step_signal None ''snapshot_count'' [arr ''i'' [1] [9]]) \<and>
   one_step_signal None ''snapshot_count'' [arr ''i'' [1] [9]] ''snapshot_count'' =
     Some (PInt 1) \<and>
   get_item (one_step_signal None ''snapshot_count'' [arr ''i'' [1] [9]]) 0 = Inl TypeError"
  by (auto simp add: init_signal_def ebind_def check_temporal_consistency_def getattr_def
      getattr_key_def attr_len_def py_len_def py_append_def setattr_def bound_method_def
      set_snapshot_count_def init_params_def fun_eq_iff one_step_signal_def elem_of_def
      get_item_def get_feature_def get_edge_index_def get_edge_weight_def get_batch_index_def
      get_target_def get_additional_features_def get_additional_feature_def subscript_def
      list_index_def batch_keywords_def)

text \<open>C8, amended. When the names of the additional features are fresh: at an index in
  range the dictionary of additional features has exactly the keys of the keyword
  arguments, in their order, and under each key the entry at that index of the key's list:
  as a \<^verbatim>\<open>LongTensor\<close> if the array is of kind \<^verbatim>\<open>"i"\<close>, as a \<^verbatim>\<open>FloatTensor\<close> if it
  is of kind \<^verbatim>\<open>"f"\<close>, which is the branch \<^verbatim>\<open>_get_target\<close> takes.\<close>

theorem additional_features_by_key_and_kind:
  assumes "fresh_names kw" and "init_signal ei ew f tg b kw = Inr s"
    and "0 \<le> i" and "i < int (length f)"
  shows "\<exists>snap. get_item s i = Inr snap \<and>
           map fst (snap_extra snap) = map fst kw \<and>
           (\<forall>(key, v) \<in> set kw.
              (dtype_kind (v ! nat i) = ''i'' \<longrightarrow>
                 map_of (snap_extra snap) key = Some (Some (LongTensor (v ! nat i)))) \<and>
              (dtype_kind (v ! nat i) = ''f'' \<longrightarrow>
                 map_of (snap_extra snap) key = Some (Some (FloatTensor (v ! nat i)))))"
proof -
  have k: "map fst (map (\<lambda>(key, v). (key, g v)) kw) = map fst kw"
    for g :: "'a ndarray list \<Rightarrow> 'a tensor option"
    by (induction kw) auto
  show ?thesis
    unfolding get_item_nonneg [OF assms]
    by (auto simp: k extra_lookup [OF assms(1)])
qed

theorem additional_features_by_key_and_kind_witness:
  "fresh_names ex_kwargs \<and>
   init_signal ex_edge_indices ex_edge_weights ex_features ex_targets ex_batches ex_kwargs
     = Inr ex_signal \<and>
   (''weight_extra'', ex_extra) \<in> set ex_kwargs \<and>
   dtype_kind (ex_extra ! nat 0) = ''i'' \<and>
   (\<exists>snap. get_item ex_signal 0 = Inr snap \<and>
      map fst (snap_extra snap) = [''weight_extra''] \<and>
      map_of (snap_extra snap) ''weight_extra'' = Some (Some (LongTensor (arr ''i'' [1] [9])))) \<and>
   dtype_kind (ex_extra ! nat 1) = ''f'' \<and>
   (\<exists>snap. get_item ex_signal 1 = Inr snap \<and>
      map_of (snap_extra snap) ''weight_extra'' =
        Some (Some (FloatTensor (arr ''f'' [1] [1 / 4]))))"
proof -
  have r: "(0::int) \<le> 0" "0 < int (length ex_features)" "(0::int) \<le> 1"
    "1 < int (length ex_features)"
    by (simp_all add: ex_features_def)
  show ?thesis
    using additional_features_by_key_and_kind [OF ex_fresh ex_init r(1,2)]
      additional_features_by_key_and_kind [OF ex_fresh ex_init r(3,4)] ex_init ex_fresh
    by (auto simp add: ex_kwargs_def ex_extra_def)
qed




text \<open>C10. A negative index in range is not accepted on every constructed object: with
  the keyword argument \<^verbatim>\<open>batch=[a]\<close> the \<^verbatim>\<open>Batch\<close> call gets that keyword twice
  and \<^verbatim>\<open>__get_item__(-1)\<close> raises \<^verbatim>\<open>TypeError\<close>.\<close>

theorem negative_index_keyword_counterexample:
  "init_signal [None] [None] [None] [None] [None] [(''batch'', [arr ''i'' [1] [0]])] =
     Inr (one_step_signal None ''batch'' [arr ''i'' [1] [0]]) \<and>
   one_step_signal None ''batch'' [arr ''i'' [1] [0]] ''snapshot_count'' = Some (PInt 1) \<and>
   get_item (one_step_signal None ''batch'' [arr ''i'' [1] [0]]) (- 1) = Inl TypeError"
  by (auto simp add: init_signal_def ebind_def check_temporal_consistency_def getattr_def
      getattr_key_def attr_len_def py_len_def py_append_def setattr_def bound_method_def
      set_snapshot_count_def init_params_def fun_eq_iff one_step_signal_def elem_of_def
      get_item_def get_feature_def get_edge_index_def get_edge_weight_def get_batch_index_def
      get_target_def get_additional_features_def get_additional_feature_def subscript_def
      list_index_def batch_keywords_def)

text \<open>C10, amended. When the names of the additional features are fresh: an index
  \<open>i\<close> with \<open>- snapshot_count \<le> i < 0\<close> is accepted, and \<^verbatim>\<open>__get_item__\<close> returns
  the snapshot it returns at \<open>snapshot_count + i\<close>, since every accessor indexes a
  Python list.\<close>

theorem negative_index_counts_from_the_end:
  assumes "fresh_names kw" and "init_signal ei ew f tg b kw = Inr s"
    and "- int (length f) \<le> i" and "i < 0"
  shows "s ''snapshot_count'' = Some (PInt (int (length f))) \<and>
         (\<exists>snap. get_item s i = Inr snap \<and> get_item s (int (length f) + i) = Inr snap)"
proof -
  note c = init_fresh_constructed(1) [OF assms(1,2)]
  define j where "j = nat (i + int (length f))"
  have j1: "j = nat (if i < 0 then i + int (length f) else i)"
    using assms(4) by (simp add: j_def)
  have j2: "j = nat (if int (length f) + i < 0 then int (length f) + i + int (length f)
                     else int (length f) + i)"
    using assms(3) by (simp add: j_def add.commute)
  have r1: "i < int (length f)" using assms(4) by simp
  have r2: "- int (length f) \<le> int (length f) + i" "int (length f) + i < int (length f)"
    using assms(3,4) by simp_all
  note a = get_item_constructed [OF c assms(3) r1 j1]
  note b = get_item_constructed [OF c r2 j2]
  from a b have "\<exists>snap. get_item s i = Inr snap \<and>
      get_item s (int (length f) + i) = Inr snap"
    by simp
  moreover from c have "s ''snapshot_count'' = Some (PInt (int (length f)))"
    unfolding constructed_def by simp
  ultimately show ?thesis by simp
qed

theorem negative_index_counts_from_the_end_witness:
  "fresh_names ex_kwargs \<and>
   init_signal ex_edge_indices ex_edge_weights ex_features ex_targets ex_batches ex_kwargs
     = Inr ex_signal \<and>
   - int (length ex_features) \<le> - 2 \<and> (- 2 :: int) < 0 \<and>
   (\<exists>snap. get_item ex_signal (- 2) = Inr snap \<and> get_item ex_signal 2 = Inr snap)"
proof -
  have r: "- int (length ex_features) \<le> - 2" "(- 2 :: int) < 0"
    by (simp_all add: ex_features_def)
  show ?thesis
    using negative_index_counts_from_the_end [OF ex_fresh ex_init r] ex_init ex_fresh
    by (auto simp add: ex_features_def)
qed

text \<open>C6. A loop does not yield a snapshot per time step on every constructed object. With
  the keyword argument \<^verbatim>\<open>t=[a]\<close>, \<^verbatim>\<open>__iter__\<close> replaces the list by the cursor 0,
  and the first \<^verbatim>\<open>__next__\<close> reaches \<^verbatim>\<open>getattr(self, 't')[0]\<close>, which subscripts
  that integer: the loop over this one-step signal ends with \<^verbatim>\<open>TypeError\<close> and no
  snapshot.\<close>

theorem traversal_cursor_counterexample:
  "init_signal [None] [None] [None] [None] [None] [(''t'', [arr ''i'' [1] [1]])] =
     Inr (one_step_signal None ''t'' [arr ''i'' [1] [1]]) \<and>
   one_step_signal None ''t'' [arr ''i'' [1] [1]] ''snapshot_count'' = Some (PInt 1) \<and>
   fst (traverse (one_step_signal None ''t'' [arr ''i'' [1] [1]])) = Inl TypeError"
proof -
  have "next_item (iter_signal (one_step_signal None ''t'' [arr ''i'' [1] [1 :: real]])) =
      (Inl TypeError, iter_signal (one_step_signal None ''t'' [arr ''i'' [1] [1]]))"
    by (simp add: next_item_def iter_signal_def attr_len_def py_len_def
        ebind_def getattr_def getattr_key_def bound_method_def one_step_signal_def elem_of_def
        get_item_def get_feature_def get_edge_index_def get_edge_weight_def
        get_batch_index_def get_target_def get_additional_features_def
        get_additional_feature_def subscript_def list_index_def)
  then have "fst (traverse (one_step_signal None ''t'' [arr ''i'' [1] [1 :: real]])) =
      Inl TypeError"
    unfolding traverse_def by (subst collect_next.simps) simp
  moreover have
    "init_signal [None] [None] [None] [None] [None] [(''t'', [arr ''i'' [1] [1 :: real]])] =
       Inr (one_step_signal None ''t'' [arr ''i'' [1] [1]]) \<and>
     one_step_signal None ''t'' [arr ''i'' [1] [1 :: real]] ''snapshot_count'' = Some (PInt 1)"
    by (auto simp add: init_signal_def ebind_def check_temporal_consistency_def getattr_def
      getattr_key_def attr_len_def py_len_def py_append_def setattr_def bound_method_def
      set_snapshot_count_def init_params_def fun_eq_iff one_step_signal_def elem_of_def)
  ultimately show ?thesis by simp
qed

text \<open>C6, amended. When the names of the additional features are fresh: a loop over a
  constructed signal yields as many snapshots as there are time steps, the snapshot at
  position \<open>i\<close> being the one \<^verbatim>\<open>__get_item__\<close> returns at \<open>i\<close>. When
  \<^verbatim>\<open>__next__\<close> raises \<^verbatim>\<open>StopIteration\<close> it has set the cursor to 0, and a second
  loop over the object as the first one left it yields the same list; so does calling
  \<^verbatim>\<open>__next__\<close> again without \<^verbatim>\<open>__iter__\<close>.\<close>

theorem traversal_yields_every_snapshot_in_order:
  assumes "fresh_names kw" and "init_signal ei ew f tg b kw = Inr s"
  shows "\<exists>snaps. traverse s = (Inr snaps, s(''t'' \<mapsto> PInt 0)) \<and>
           length snaps = length f \<and>
           (\<forall>i < length f. get_item s (int i) = Inr (snaps ! i)) \<and>
           traverse (s(''t'' \<mapsto> PInt 0)) = (Inr snaps, s(''t'' \<mapsto> PInt 0)) \<and>
           collect_next (s(''t'' \<mapsto> PInt 0)) = (Inr snaps, s(''t'' \<mapsto> PInt 0))"
proof -
  note c = init_fresh_constructed(1) [OF assms]
  let ?s0 = "s(''t'' \<mapsto> PInt 0)"
  let ?snaps = "map (\<lambda>i. projr (get_item s (int i))) [0..<length f]"
  have c0: "constructed ?s0 ei ew f tg b kw"
    by (rule constructed_cursor [OF c])
  have "collect_next ?s0 =
      (Inr (map (\<lambda>i. projr (get_item ?s0 (int i))) [nat 0..<length f]),
       ?s0(''t'' \<mapsto> PInt 0))"
    by (rule collect_next_from [OF c0]) simp_all
  moreover have "map (\<lambda>i. projr (get_item ?s0 (int i))) [nat 0..<length f] = ?snaps"
    by (rule map_cong) (simp_all add: get_item_cursor [OF c])
  ultimately have run: "collect_next ?s0 = (Inr ?snaps, ?s0)"
    by simp
  have each: "get_item s (int i) = Inr (?snaps ! i)" if "i < length f" for i
  proof -
    from get_item_constructed [OF c _ _ refl, of "int i"] that
    obtain snap where "get_item s (int i) = Inr snap"
      by auto
    with that show ?thesis by simp
  qed
  have "traverse s = (Inr ?snaps, ?s0)"
    using run by (simp add: traverse_def iter_signal_def)
  moreover have "traverse ?s0 = (Inr ?snaps, ?s0)"
    using run by (simp add: traverse_def iter_signal_def)
  moreover have "length ?snaps = length f" by simp
  ultimately show ?thesis
    using each run by blast
qed

theorem traversal_yields_every_snapshot_in_order_witness:
  "fresh_names ex_kwargs \<and>
   init_signal ex_edge_indices ex_edge_weights ex_features ex_targets ex_batches ex_kwargs
     = Inr ex_signal \<and>
   (\<exists>snaps. traverse ex_signal = (Inr snaps, ex_signal(''t'' \<mapsto> PInt 0)) \<and>
      length snaps = 4 \<and>
      get_item ex_signal 0 = Inr (snaps ! 0) \<and> get_item ex_signal 1 = Inr (snaps ! 1) \<and>
      get_item ex_signal 2 = Inr (snaps ! 2) \<and> get_item ex_signal 3 = Inr (snaps ! 3) \<and>
      traverse (ex_signal(''t'' \<mapsto> PInt 0)) = (Inr snaps, ex_signal(''t'' \<mapsto> PInt 0)))"
proof -
  from traversal_yields_every_snapshot_in_order [OF ex_fresh ex_init]
  obtain snaps where t: "traverse ex_signal = (Inr snaps, ex_signal(''t'' \<mapsto> PInt 0))"
    and l: "length snaps = length ex_features"
    and g: "\<forall>i < length ex_features. get_item ex_signal (int i) = Inr (snaps ! i)"
    and t2: "traverse (ex_signal(''t'' \<mapsto> PInt 0)) =
               (Inr snaps, ex_signal(''t'' \<mapsto> PInt 0))"
    by blast
  have n: "length ex_features = 4" by (simp add: ex_features_def)
  from g n have "get_item ex_signal (int i) = Inr (snaps ! i)" if "i < 4" for i
    using that by simp
  from this [of 0] this [of 1] this [of 2] this [of 3]
  have "get_item ex_signal 0 = Inr (snaps ! 0)" "get_item ex_signal 1 = Inr (snaps ! 1)"
    "get_item ex_signal 2 = Inr (snaps ! 2)" "get_item ex_signal 3 = Inr (snaps ! 3)"
    by simp_all
  with t l n t2 ex_init ex_fresh show ?thesis
    by auto
qed

end
